theory Spec2Isabelle
  imports Main
begin

section \<open>Exceptions and Python values\<close>

text \<open>
  The exceptions that \<^verbatim>\<open>connector/v03x.py\<close> raises or lets escape. \<open>FailedOperationError\<close>
  is the module's own exception class; the others are Python's built-in ones.
\<close>

datatype error = FailedOperationError | ValueError | TypeError | AttributeError | IndexError

text \<open>
  A \<^verbatim>\<open>bytes\<close> object is a sequence of integers in \<open>range(256)\<close>. The values that cross
  the controller's interface are integers, byte strings and pairs of integers (the
  \<open>(value, threshold)\<close> and \<open>(time, scale)\<close> tuples); Python's \<open>None\<close> is the \<open>None\<close> of
  an option type.
\<close>

type_synonym bytes = "int list"

datatype pyval = PInt int | PBytes bytes | PPair int int

text \<open>Python truth value: zero and the empty byte string are false, a pair is true.\<close>

fun truthy :: "pyval \<Rightarrow> bool" where
  "truthy (PInt n) = (n \<noteq> 0)"
| "truthy (PBytes b) = (b \<noteq> [])"
| "truthy (PPair a b) = True"

fun truthy_opt :: "pyval option \<Rightarrow> bool" where
  "truthy_opt None = False"
| "truthy_opt (Some v) = truthy v"

text \<open>
  \<open>v[i]\<close> for a non-negative index: an integer is not subscriptable, a byte string and
  a tuple raise IndexError out of range.
\<close>

fun getitem :: "pyval \<Rightarrow> nat \<Rightarrow> error + int" where
  "getitem (PInt n) i = Inl TypeError"
| "getitem (PBytes b) i = (if i < length b then Inr (b ! i) else Inl IndexError)"
| "getitem (PPair x y) i = (if i = 0 then Inr x else if i = 1 then Inr y else Inl IndexError)"

text \<open>\<open>buf[i] = v\<close> on a bytearray: the value must be in \<open>range(256)\<close>.\<close>

definition bytearray_set :: "bytes \<Rightarrow> nat \<Rightarrow> int \<Rightarrow> error + bytes" where
  "bytearray_set buf i v =
     (if i < length buf then (if 0 \<le> v \<and> v < 256 then Inr (buf[i := v]) else Inl ValueError)
      else Inl IndexError)"

text \<open>
  \<open>int(value / 256)\<close>: true division followed by truncation towards zero. The quotient
  by a power of two is exact in double precision for every \<open>value\<close> below \<open>2 ^ 53\<close> in
  magnitude, which covers every width of this module.
\<close>

definition int_truediv :: "int \<Rightarrow> int \<Rightarrow> int" where
  "int_truediv a b = (if 0 \<le> a then a div b else - ((- a) div b))"

section \<open>Byte helpers of the protocol module\<close>

text \<open>
  Modelled from the spec: \<open>signed_byte\<close> and \<open>unsigned_byte\<close> are imported from
  \<^verbatim>\<open>protocol.v03x\<close>, which is not part of the sources at hand. The specification says
  that decoding "interprets the single byte as signed" and that encoding "wraps negative
  values into the unsigned 0-255 range".
\<close>

definition signed_byte :: "int \<Rightarrow> int" where
  "signed_byte b = (if b < 128 then b else b - 256)"

definition unsigned_byte :: "int \<Rightarrow> int" where
  "unsigned_byte val = (if 0 \<le> val then val else val + 256)"

section \<open>ValueCodec\<close>

text \<open>
  \<open>ValueEncoder.encode\<close> allocates \<open>bytearray(encoded_len())\<close>, all zero, and hands it to
  \<open>_encode\<close>; \<open>ValueDecoder.decode\<close> is \<open>_decode\<close>. Reading \<open>buf[i]\<close> beyond the end of the
  buffer raises IndexError.
\<close>

definition ByteEncoder_encoded_len :: nat where
  "ByteEncoder_encoded_len = 1"

definition ShortEncoder_encoded_len :: nat where
  "ShortEncoder_encoded_len = 2"

definition LongEncoder_encoded_len :: nat where
  "LongEncoder_encoded_len = 4"

definition ByteEncoder_encode :: "int \<Rightarrow> error + bytes" where
  "ByteEncoder_encode v =
     bytearray_set (replicate ByteEncoder_encoded_len 0) 0 (unsigned_byte v)"

definition ShortEncoder_encode :: "int \<Rightarrow> error + bytes" where
  "ShortEncoder_encode v =
     (let v = (if v < 0 then v + 64 * 1024 else v) in
      case bytearray_set (replicate ShortEncoder_encoded_len 0) 1
             (unsigned_byte (int_truediv v 256)) of
        Inl e \<Rightarrow> Inl e
      | Inr buf \<Rightarrow> bytearray_set buf 0 (v mod 256))"

fun LongEncoder_loop :: "nat list \<Rightarrow> int \<Rightarrow> bytes \<Rightarrow> error + bytes" where
  "LongEncoder_loop [] v buf = Inr buf"
| "LongEncoder_loop (x # xs) v buf =
     (case bytearray_set buf x (v mod 256) of
        Inl e \<Rightarrow> Inl e
      | Inr buf' \<Rightarrow> LongEncoder_loop xs (int_truediv v 256) buf')"

definition LongEncoder_encode :: "int \<Rightarrow> error + bytes" where
  "LongEncoder_encode v =
     LongEncoder_loop [0, 1, 2, 3] (if v < 0 then v + 2 ^ 32 else v)
       (replicate LongEncoder_encoded_len 0)"

definition ByteDecoder_decode :: "bytes \<Rightarrow> error + int" where
  "ByteDecoder_decode buf =
     (if length buf < 1 then Inl IndexError else Inr (signed_byte (buf ! 0)))"

definition ShortDecoder_decode :: "bytes \<Rightarrow> error + int" where
  "ShortDecoder_decode buf =
     (if length buf < 2 then Inl IndexError
      else Inr (signed_byte (buf ! 1) * 256 + buf ! 0))"

definition LongDecoder_decode :: "bytes \<Rightarrow> error + int" where
  "LongDecoder_decode buf =
     (if length buf < 4 then Inl IndexError
      else Inr (((signed_byte (buf ! 3) * 256 + buf ! 2) * 256 + buf ! 1) * 256 + buf ! 0))"

text \<open>
  The layout the specification names: the little-endian base-256 digits of the value
  after negative values have been biased by \<open>2 ^ (8 * n)\<close>.
\<close>

definition spec_bias :: "nat \<Rightarrow> int \<Rightarrow> int" where
  "spec_bias n v = (if v < 0 then v + 2 ^ (8 * n) else v)"

definition spec_little_endian :: "nat \<Rightarrow> int \<Rightarrow> bytes" where
  "spec_little_endian n u = map (\<lambda>i. (u div 256 ^ i) mod 256) [0..<n]"

section \<open>AddressTree\<close>

text \<open>
  A container is either a root container or a \<open>Container\<close> proxy built as
  \<open>Container(controller, container, slot)\<close>. Every proxy of one controller carries the
  same back-reference to it, which the datatype leaves out. A \<open>DynamicContainer\<close> that is
  still attached computes its id chain with the same two methods and is this datatype's
  \<open>Container\<close> as well.
\<close>

datatype container = RootContainer | Container container int

fun id_chain :: "container \<Rightarrow> int list"
  and id_chain_for :: "container \<Rightarrow> int \<Rightarrow> int list" where
  "id_chain RootContainer = []"
| "id_chain (Container c s) = id_chain_for c s"
| "id_chain_for RootContainer slot = [slot]"
| "id_chain_for (Container c s) slot = id_chain (Container c s) @ [slot]"

text \<open>\<open>BaseController.container_for\<close>: the loop over the id chain, starting at the root.\<close>

fun container_for_loop :: "container \<Rightarrow> int list \<Rightarrow> container" where
  "container_for_loop c [] = c"
| "container_for_loop c (x # xs) = container_for_loop (Container c x) xs"

definition container_for :: "int list \<Rightarrow> container" where
  "container_for chain = container_for_loop RootContainer chain"

text \<open>\<open>container_chain_and_id\<close>: \<open>id_chain[:-1], id_chain[-1]\<close>; the index fails on \<open>()\<close>.\<close>

definition container_chain_and_id :: "int list \<Rightarrow> error + (int list \<times> int)" where
  "container_chain_and_id chain =
     (if chain = [] then Inl IndexError else Inr (butlast chain, last chain))"

definition container_slot_from_id_chain :: "int list \<Rightarrow> error + (container \<times> int)" where
  "container_slot_from_id_chain chain =
     (case container_chain_and_id chain of
        Inl e \<Rightarrow> Inl e
      | Inr (chain_prefix, slot) \<Rightarrow> Inr (container_for chain_prefix, slot))"

section \<open>Capability model and type registry\<close>

text \<open>
  The concrete classes of the module. \<open>ValueProfile\<close>, \<open>LogicActuator\<close> and
  \<open>BangBangController\<close> are bare classes with a \<open>type_id\<close> and nothing else;
  \<open>SystemID\<close> and \<open>SystemTime\<close> are system objects without a \<open>type_id\<close>.
\<close>

datatype obj_class =
    CurrentTicks | DynamicContainer | PersistentValue | ValueProfile | LogicActuator
  | BangBangController | PersistChangeValue | SystemID | SystemTime

fun type_id :: "obj_class \<Rightarrow> int option" where
  "type_id CurrentTicks = Some 3"
| "type_id DynamicContainer = Some 4"
| "type_id PersistentValue = Some 5"
| "type_id ValueProfile = Some 6"
| "type_id LogicActuator = Some 7"
| "type_id BangBangController = Some 8"
| "type_id PersistChangeValue = Some 9"
| "type_id SystemID = None"
| "type_id SystemTime = None"

definition all_types :: "obj_class list" where
  "all_types = [CurrentTicks, DynamicContainer, PersistentValue, ValueProfile, LogicActuator,
                BangBangController, PersistChangeValue]"

text \<open>
  \<open>_from_id = dict((x.type_id, x) for x in all_types)\<close>: a later pair replaces an earlier
  one with the same key, so the association list is searched from its end.
  \<open>from_id\<close> is \<open>_from_id.get(type_id, None)\<close>.
\<close>

definition from_id_dict :: "(int \<times> obj_class) list" where
  "from_id_dict = rev (map (\<lambda>x. (the (type_id x), x)) all_types)"

definition from_id :: "int \<Rightarrow> obj_class option" where
  "from_id t = map_of from_id_dict t"

text \<open>
  Indexing and slicing treat a byte string and a tuple alike, as a sequence of integers;
  an integer is neither subscriptable nor iterable.
\<close>

fun seq_of :: "pyval \<Rightarrow> error + int list" where
  "seq_of (PInt n) = Inl TypeError"
| "seq_of (PBytes b) = Inr b"
| "seq_of (PPair x y) = Inr [x, y]"

text \<open>
  \<open>encode_definition\<close> by class. \<open>EmptyDefinition\<close> refuses every argument,
  \<open>NonEmptyBlockDefinition\<close> passes a true argument through, \<open>PersistChangeValue\<close> reads
  \<open>arg[1]\<close> first, then encodes \<open>arg[0]\<close> and \<open>arg[1]\<close> as Shorts; the remaining classes
  have no such method.
\<close>

fun encode_definition :: "obj_class \<Rightarrow> pyval \<Rightarrow> error + pyval" where
  "encode_definition CurrentTicks arg = Inl ValueError"
| "encode_definition DynamicContainer arg = Inl ValueError"
| "encode_definition PersistentValue arg = (if \<not> truthy arg then Inl ValueError else Inr arg)"
| "encode_definition PersistChangeValue arg =
     (case getitem arg 1 of
        Inl e \<Rightarrow> Inl e
      | Inr threshold \<Rightarrow>
          if threshold < 0 then Inl ValueError
          else (case getitem arg 0 of
                  Inl e \<Rightarrow> Inl e
                | Inr v \<Rightarrow>
                    (case ShortEncoder_encode v of
                       Inl e \<Rightarrow> Inl e
                     | Inr b0 \<Rightarrow>
                         (case ShortEncoder_encode threshold of
                            Inl e \<Rightarrow> Inl e
                          | Inr b1 \<Rightarrow> Inr (PBytes (b0 @ b1))))))"
| "encode_definition cls arg = Inl AttributeError"

text \<open>
  \<open>decode_definition\<close> by class; the block may be \<open>None\<close>. For \<open>PersistChangeValue\<close> the
  slices are \<open>data_block[0:2]\<close> and \<open>data_block[2:4]\<close>, decoded in that order.
\<close>

fun decode_definition :: "obj_class \<Rightarrow> pyval option \<Rightarrow> error + pyval" where
  "decode_definition CurrentTicks data = Inl ValueError"
| "decode_definition DynamicContainer data = Inl ValueError"
| "decode_definition PersistentValue data =
     (case data of
        None \<Rightarrow> Inl ValueError
      | Some d \<Rightarrow> encode_definition PersistentValue d)"
| "decode_definition PersistChangeValue data =
     (case data of
        None \<Rightarrow> Inl TypeError
      | Some d \<Rightarrow>
          (case seq_of d of
             Inl e \<Rightarrow> Inl e
           | Inr xs \<Rightarrow>
               (case ShortDecoder_decode (take 2 xs) of
                  Inl e \<Rightarrow> Inl e
                | Inr v \<Rightarrow>
                    (case ShortDecoder_decode (take 2 (drop 2 xs)) of
                       Inl e \<Rightarrow> Inl e
                     | Inr threshold \<Rightarrow> Inr (PPair v threshold)))))"
| "decode_definition cls data = Inl AttributeError"

text \<open>
  The value codec of each class: \<open>BufferEncoder\<close> for the two buffer classes,
  \<open>ShortEncoder\<close> for \<open>PersistChangeValue\<close>, and for \<open>SystemTime\<close> the unpacking
  \<open>time, scale = value\<close> followed by \<open>Long(time)\<close> in \<open>buf[0:4]\<close> and \<open>Short(scale)\<close> in
  \<open>buf[4:6]\<close>. Comparing a non-integer with \<open>0\<close> raises TypeError; unpacking a sequence
  whose length is not two raises ValueError.
\<close>

fun encode :: "obj_class \<Rightarrow> pyval \<Rightarrow> error + pyval" where
  "encode PersistentValue v = Inr v"
| "encode SystemID v = Inr v"
| "encode PersistChangeValue v =
     (case v of
        PInt n \<Rightarrow> (case ShortEncoder_encode n of Inl e \<Rightarrow> Inl e | Inr b \<Rightarrow> Inr (PBytes b))
      | _ \<Rightarrow> Inl TypeError)"
| "encode SystemTime v =
     (case seq_of v of
        Inl e \<Rightarrow> Inl e
      | Inr xs \<Rightarrow>
          if length xs \<noteq> 2 then Inl ValueError
          else (case LongEncoder_encode (xs ! 0) of
                  Inl e \<Rightarrow> Inl e
                | Inr b0 \<Rightarrow>
                    (case ShortEncoder_encode (xs ! 1) of
                       Inl e \<Rightarrow> Inl e
                     | Inr b1 \<Rightarrow> Inr (PBytes (b0 @ b1)))))"
| "encode cls v = Inl AttributeError"

fun decode :: "obj_class \<Rightarrow> pyval \<Rightarrow> error + pyval" where
  "decode PersistentValue buf = Inr buf"
| "decode SystemID buf = Inr buf"
| "decode PersistChangeValue buf =
     (case seq_of buf of
        Inl e \<Rightarrow> Inl e
      | Inr xs \<Rightarrow> (case ShortDecoder_decode xs of Inl e \<Rightarrow> Inl e | Inr n \<Rightarrow> Inr (PInt n)))"
| "decode CurrentTicks buf =
     (case seq_of buf of
        Inl e \<Rightarrow> Inl e
      | Inr xs \<Rightarrow> (case LongDecoder_decode xs of Inl e \<Rightarrow> Inl e | Inr n \<Rightarrow> Inr (PInt n)))"
| "decode SystemTime buf =
     (case seq_of buf of
        Inl e \<Rightarrow> Inl e
      | Inr xs \<Rightarrow>
          (case LongDecoder_decode (take 4 xs) of
             Inl e \<Rightarrow> Inl e
           | Inr time \<Rightarrow>
               (case ShortDecoder_decode (take 2 (drop 4 xs)) of
                  Inl e \<Rightarrow> Inl e
                | Inr scale \<Rightarrow> Inr (PPair time scale))))"
| "decode cls buf = Inl AttributeError"

fun encoded_len :: "obj_class \<Rightarrow> error + nat" where
  "encoded_len CurrentTicks = Inr 4"
| "encoded_len PersistentValue = Inr 0"
| "encoded_len PersistChangeValue = Inr 2"
| "encoded_len SystemID = Inr 1"
| "encoded_len SystemTime = Inr 6"
| "encoded_len cls = Inl AttributeError"

section \<open>Proxies and object references\<close>

text \<open>
  A contained proxy holds the three references that \<open>InstantiableObject.delete\<close> clears,
  and its class. There is one controller, so the reference to it is a token.
\<close>

datatype controller_ref = ControllerRef

record proxy =
  controller :: "controller_ref option"
  container :: "container option"
  slot :: "int option"
  obj_class :: obj_class

text \<open>
  \<open>ContainedObject.id_chain\<close> is \<open>self.container.id_chain_for(self.slot)\<close>: without a
  container the attribute lookup on \<open>None\<close> fails. A proxy that has its container but not
  its slot is not produced by the constructor or by \<open>delete\<close>, which set the two
  together; its chain would hold \<open>None\<close>, which is not a sequence of integers, and the
  model reports that as TypeError.
\<close>

definition proxy_id_chain :: "proxy \<Rightarrow> error + int list" where
  "proxy_id_chain obj =
     (case container obj of
        None \<Rightarrow> Inl AttributeError
      | Some c \<Rightarrow> (case slot obj of None \<Rightarrow> Inl TypeError | Some s \<Rightarrow> Inr (id_chain_for c s)))"

text \<open>
  \<open>obj_class(self, container, slot)\<close>: the three bare classes have no constructor that
  takes arguments.
\<close>

fun construct :: "obj_class \<Rightarrow> container \<Rightarrow> int \<Rightarrow> error + proxy" where
  "construct ValueProfile c s = Inl TypeError"
| "construct LogicActuator c s = Inl TypeError"
| "construct BangBangController c s = Inl TypeError"
| "construct cls c s =
     Inr \<lparr>controller = Some ControllerRef, container = Some c, slot = Some s, obj_class = cls\<rparr>"

datatype object_reference =
  ObjectReference container int "obj_class option" "pyval option"

section \<open>The protocol and the result funnel\<close>

text \<open>
  The commands of the protocol object that the controller issues, with their arguments.
  \<open>CreateObject\<close> carries \<open>data or []\<close>; the empty list is the empty byte string here.
\<close>

datatype call =
    ReadValue "int list" nat
  | WriteValue "int list" pyval
  | ReadSystemValue "int list" nat
  | WriteSystemValue "int list" pyval
  | CreateObject "int list" int pyval
  | DeleteObject "int list"
  | NextSlot "int list"
  | Reset int

text \<open>
  What the controller does to the outside, in order: a command sent to the device, a call
  of the \<open>fetch_id\<close> collaborator, a call of \<open>id_service.return_id\<close>.
\<close>

datatype event = Device call | FetchId | ReturnId pyval

text \<open>
  A protocol method returns a future or \<open>None\<close>; \<open>future.value(timeout)\<close> yields the
  device's answer, or \<open>None\<close> when none arrived in time. The protocol object is outside the
  module: it is a parameter that maps the events so far and the command to the future.
\<close>

type_synonym future = "pyval option"

type_synonym protocol = "event list \<Rightarrow> call \<Rightarrow> future option"

definition result_from :: "future option \<Rightarrow> pyval option" where
  "result_from future = (case future of None \<Rightarrow> None | Some f \<Rightarrow> f)"

text \<open>
  \<open>_handle_error\<close>: issue the command, resolve the future, compare with zero. The
  comparison \<open>error < 0\<close> raises TypeError when the result is not a number.
\<close>

definition handle_error ::
  "protocol \<Rightarrow> call \<Rightarrow> bool \<Rightarrow> event list \<Rightarrow> (error + int) \<times> event list" where
  "handle_error p c allow_fail tr =
     (let error = result_from (p tr c); tr' = tr @ [Device c] in
      case error of
        Some (PInt n) \<Rightarrow>
          if n < 0 \<and> \<not> allow_fail then (Inl FailedOperationError, tr') else (Inr n, tr')
      | _ \<Rightarrow> (Inl TypeError, tr'))"

definition fetch_data_block ::
  "protocol \<Rightarrow> call \<Rightarrow> event list \<Rightarrow> (error + pyval) \<times> event list" where
  "fetch_data_block p c tr =
     (let data = result_from (p tr c); tr' = tr @ [Device c] in
      case data of
        None \<Rightarrow> (Inl FailedOperationError, tr')
      | Some d \<Rightarrow> if \<not> truthy d then (Inl FailedOperationError, tr') else (Inr d, tr'))"

section \<open>Controller orchestration\<close>

definition write_value_impl ::
  "protocol \<Rightarrow> proxy \<Rightarrow> pyval \<Rightarrow> (int list \<Rightarrow> pyval \<Rightarrow> call) \<Rightarrow> event list
     \<Rightarrow> (error + unit) \<times> event list" where
  "write_value_impl p obj v fn tr =
     (case encode (obj_class obj) v of
        Inl e \<Rightarrow> (Inl e, tr)
      | Inr encoded \<Rightarrow>
          (case proxy_id_chain obj of
             Inl e \<Rightarrow> (Inl e, tr)
           | Inr chain \<Rightarrow>
               (case fetch_data_block p (fn chain encoded) tr of
                  (Inl e, tr') \<Rightarrow> (Inl e, tr')
                | (Inr data, tr') \<Rightarrow>
                    if data \<noteq> encoded then (Inl FailedOperationError, tr')
                    else (Inr (), tr'))))"

definition write_value ::
  "protocol \<Rightarrow> proxy \<Rightarrow> pyval \<Rightarrow> event list \<Rightarrow> (error + unit) \<times> event list" where
  "write_value p obj v tr = write_value_impl p obj v WriteValue tr"

definition write_system_value ::
  "protocol \<Rightarrow> proxy \<Rightarrow> pyval \<Rightarrow> event list \<Rightarrow> (error + unit) \<times> event list" where
  "write_system_value p obj v tr = write_value_impl p obj v WriteSystemValue tr"

definition read_value_impl ::
  "protocol \<Rightarrow> proxy \<Rightarrow> (int list \<Rightarrow> nat \<Rightarrow> call) \<Rightarrow> event list
     \<Rightarrow> (error + pyval) \<times> event list" where
  "read_value_impl p obj fn tr =
     (case proxy_id_chain obj of
        Inl e \<Rightarrow> (Inl e, tr)
      | Inr chain \<Rightarrow>
          (case encoded_len (obj_class obj) of
             Inl e \<Rightarrow> (Inl e, tr)
           | Inr n \<Rightarrow>
               (case fetch_data_block p (fn chain n) tr of
                  (Inl e, tr') \<Rightarrow> (Inl e, tr')
                | (Inr data, tr') \<Rightarrow> (decode (obj_class obj) data, tr'))))"

definition read_value ::
  "protocol \<Rightarrow> proxy \<Rightarrow> event list \<Rightarrow> (error + pyval) \<times> event list" where
  "read_value p obj tr = read_value_impl p obj ReadValue tr"

definition read_system_value ::
  "protocol \<Rightarrow> proxy \<Rightarrow> event list \<Rightarrow> (error + pyval) \<times> event list" where
  "read_system_value p obj tr = read_value_impl p obj ReadSystemValue tr"

text \<open>\<open>system_id()\<close> is \<open>SystemID(self, self._sysroot, 0)\<close>.\<close>

definition system_id :: proxy where
  "system_id = \<lparr>controller = Some ControllerRef, container = Some RootContainer,
                 slot = Some 0, obj_class = SystemID\<rparr>"

text \<open>
  \<open>initialize(fetch_id)\<close>. The collaborator is a parameter: the id it returns when called.
  The write of \<open>current_id\<close> follows the \<open>if\<close> statement, at the level of the function body.
\<close>

definition initialize ::
  "protocol \<Rightarrow> pyval \<Rightarrow> event list \<Rightarrow> (error + pyval) \<times> event list" where
  "initialize p fetch_id tr =
     (case read_system_value p system_id tr of
        (Inl e, tr1) \<Rightarrow> (Inl e, tr1)
      | (Inr current_id, tr1) \<Rightarrow>
          (case getitem current_id 0 of
             Inl e \<Rightarrow> (Inl e, tr1)
           | Inr b \<Rightarrow>
               (let (current_id', tr2) =
                      (if b = 255 then (fetch_id, tr1 @ [FetchId]) else (current_id, tr1)) in
                case write_system_value p system_id current_id' tr2 of
                  (Inl e, tr3) \<Rightarrow> (Inl e, tr3)
                | (Inr u, tr3) \<Rightarrow> (Inr current_id', tr3))))"

definition delete_object_at ::
  "protocol \<Rightarrow> int list \<Rightarrow> bool \<Rightarrow> event list \<Rightarrow> (error + int) \<times> event list" where
  "delete_object_at p chain optional tr = handle_error p (DeleteObject chain) optional tr"

definition delete_object ::
  "protocol \<Rightarrow> proxy \<Rightarrow> event list \<Rightarrow> (error + int) \<times> event list" where
  "delete_object p obj tr =
     (case proxy_id_chain obj of
        Inl e \<Rightarrow> (Inl e, tr)
      | Inr chain \<Rightarrow> delete_object_at p chain False tr)"

definition next_slot ::
  "protocol \<Rightarrow> container \<Rightarrow> event list \<Rightarrow> (error + int) \<times> event list" where
  "next_slot p c tr = handle_error p (NextSlot (id_chain c)) False tr"

text \<open>
  \<open>InstantiableObject.delete\<close>: the proxy is returned along with the result, since the
  method assigns to its fields. The three assignments follow the controller call and are
  skipped when that call raises.
\<close>

definition delete ::
  "protocol \<Rightarrow> proxy \<Rightarrow> event list \<Rightarrow> (error + unit) \<times> proxy \<times> event list" where
  "delete p obj tr =
     (case controller obj of
        None \<Rightarrow> (Inr (), obj, tr)
      | Some ctrl \<Rightarrow>
          (case delete_object p obj tr of
             (Inl e, tr') \<Rightarrow> (Inl e, obj, tr')
           | (Inr r, tr') \<Rightarrow>
               (Inr (), obj\<lparr>container := None, slot := None, controller := None\<rparr>, tr')))"

text \<open>
  The flag expression of \<open>reset\<close> is
  \<open>1 if erase_eeprom else 0 or 2 if hard_reset else 0\<close>. A conditional expression binds
  weaker than \<open>or\<close>, so Python reads it as
  \<open>1 if erase_eeprom else ((0 or 2) if hard_reset else 0)\<close>.
\<close>

definition py_or :: "int \<Rightarrow> int \<Rightarrow> int" where
  "py_or a b = (if a \<noteq> 0 then a else b)"

definition reset_flags :: "bool \<Rightarrow> bool \<Rightarrow> int" where
  "reset_flags erase_eeprom hard_reset =
     (if erase_eeprom then 1 else (if hard_reset then py_or 0 2 else 0))"

definition reset ::
  "protocol \<Rightarrow> bool \<Rightarrow> bool \<Rightarrow> event list \<Rightarrow> (error + unit) \<times> event list" where
  "reset p erase_eeprom hard_reset tr =
     (case (if erase_eeprom
            then (case read_system_value p system_id tr of
                    (Inl e, tr1) \<Rightarrow> (Inl e, tr1)
                  | (Inr current_id, tr1) \<Rightarrow> (Inr (), tr1 @ [ReturnId current_id]))
            else (Inr (), tr)) of
        (Inl e, tr2) \<Rightarrow> (Inl e, tr2)
      | (Inr u, tr2) \<Rightarrow>
          (case handle_error p (Reset (reset_flags erase_eeprom hard_reset)) False tr2 of
             (Inl e, tr3) \<Rightarrow> (Inl e, tr3)
           | (Inr r, tr3) \<Rightarrow> (Inr (), tr3)))"

text \<open>
  \<open>create_object\<close>, statement by statement. The local part, lines
  \<open>data = (args is not None and obj_class.encode_definition(args)) or None\<close> to the
  \<open>raise\<close>, is \<open>definition_check\<close>: it returns \<open>data\<close>. In the \<open>raise\<close> statement the
  message is formatted with \<open>%\<close> applied to \<open>args\<close> alone; the format has three
  placeholders and \<open>args\<close> is never a tuple of three, so the formatting itself raises
  TypeError in place of the ValueError being built.
\<close>

definition definition_check :: "obj_class \<Rightarrow> pyval option \<Rightarrow> error + pyval option" where
  "definition_check cls args =
     (case (case args of
              None \<Rightarrow> Inr None
            | Some a \<Rightarrow>
                (case encode_definition cls a of
                   Inl e \<Rightarrow> Inl e
                 | Inr d \<Rightarrow> Inr (if truthy d then Some d else None))) of
        Inl e \<Rightarrow> Inl e
      | Inr data \<Rightarrow>
          (case (if truthy_opt args
                 then (case decode_definition cls data of Inl e \<Rightarrow> Inl e | Inr r \<Rightarrow> Inr (Some r))
                 else Inr args) of
             Inl e \<Rightarrow> Inl e
           | Inr dec \<Rightarrow> if dec \<noteq> args then Inl TypeError else Inr data))"

definition create_object_impl ::
  "protocol \<Rightarrow> container \<Rightarrow> obj_class \<Rightarrow> int \<Rightarrow> pyval option \<Rightarrow> event list
     \<Rightarrow> (error + int) \<times> event list" where
  "create_object_impl p c cls s data tr =
     (let data' = (case data of None \<Rightarrow> PBytes [] | Some d \<Rightarrow> if truthy d then d else PBytes []);
          chain = id_chain_for c s in
      case type_id cls of
        None \<Rightarrow> (Inl AttributeError, tr)
      | Some t \<Rightarrow> handle_error p (CreateObject chain t data') False tr)"

definition create_object ::
  "protocol \<Rightarrow> obj_class \<Rightarrow> pyval option \<Rightarrow> container option \<Rightarrow> int option \<Rightarrow> event list
     \<Rightarrow> (error + proxy) \<times> event list" where
  "create_object p cls args cont slt tr =
     (let c = (case cont of None \<Rightarrow> RootContainer | Some c' \<Rightarrow> c') in
      case (case slt of
              None \<Rightarrow> next_slot p c tr
            | Some s \<Rightarrow>
                (case delete_object_at p (id_chain_for c s) True tr of
                   (Inl e, tr1) \<Rightarrow> (Inl e, tr1)
                 | (Inr r, tr1) \<Rightarrow> (Inr s, tr1))) of
        (Inl e, tr1) \<Rightarrow> (Inl e, tr1)
      | (Inr s, tr1) \<Rightarrow>
          (case definition_check cls args of
             Inl e \<Rightarrow> (Inl e, tr1)
           | Inr data \<Rightarrow>
               (case create_object_impl p c cls s data tr1 of
                  (Inl e, tr2) \<Rightarrow> (Inl e, tr2)
                | (Inr r, tr2) \<Rightarrow> (construct cls c s, tr2))))"

text \<open>
  \<open>_materialize_object_descriptor\<close>: the registry lookup may yield \<open>None\<close>, and
  \<open>cls.decode_definition\<close> on \<open>None\<close> is an attribute error.
\<close>

definition materialize_object_descriptor ::
  "int list \<Rightarrow> int \<Rightarrow> pyval option \<Rightarrow> error + object_reference" where
  "materialize_object_descriptor chain obj_type data =
     (case container_slot_from_id_chain chain of
        Inl e \<Rightarrow> Inl e
      | Inr (c, s) \<Rightarrow>
          (let cls = from_id obj_type in
           case (if truthy_opt data
                 then (case cls of
                         None \<Rightarrow> Inl AttributeError
                       | Some k \<Rightarrow>
                           (case decode_definition k data of
                              Inl e \<Rightarrow> Inl e
                            | Inr a \<Rightarrow> Inr (Some a)))
                 else Inr None) of
             Inl e \<Rightarrow> Inl e
           | Inr args \<Rightarrow> Inr (ObjectReference c s cls args)))"

section \<open>Base-256 digits\<close>

lemma base256_digits4:
  "(u::int) div 16777216 * 16777216 + (u div 65536 mod 256) * 65536
     + (u div 256 mod 256) * 256 + u mod 256 = u"
proof -
  have a: "u div 65536 = u div 256 div 256" "u div 16777216 = u div 256 div 256 div 256"
    by (simp_all add: div_mult2_eq[symmetric])
  define q1 where "q1 = u div 256"
  define q2 where "q2 = q1 div 256"
  define q3 where "q3 = q2 div 256"
  have 1: "u = q1 * 256 + u mod 256" by (simp add: q1_def)
  have 2: "q1 = q2 * 256 + q1 mod 256" by (simp add: q2_def)
  have 3: "q2 = q3 * 256 + q2 mod 256" by (simp add: q3_def)
  show ?thesis unfolding a q1_def[symmetric] q2_def[symmetric] q3_def[symmetric]
    using 1 2 3 by linarith
qed

lemma high_byte_sign2: "(u::int) div 256 < 128 \<longleftrightarrow> u < 32768"
proof -
  have "u = u div 256 * 256 + u mod 256" "0 \<le> u mod 256" "u mod 256 < 256" by simp_all
  then show ?thesis by linarith
qed

lemma high_byte_sign4: "(u::int) div 16777216 < 128 \<longleftrightarrow> u < 2147483648"
proof -
  have "u = u div 16777216 * 16777216 + u mod 16777216" "0 \<le> u mod 16777216"
    "u mod 16777216 < 16777216" by simp_all
  then show ?thesis by linarith
qed

lemma top_byte4:
  assumes "0 \<le> (u::int)" and "u < 4294967296"
  shows "u div 16777216 mod 256 = u div 16777216"
proof -
  have "u = u div 16777216 * 16777216 + u mod 16777216" "0 \<le> u mod 16777216"
    "u mod 16777216 < 16777216" by simp_all
  with assms have "0 \<le> u div 16777216" "u div 16777216 < 256" by linarith+
  then show ?thesis by simp
qed

lemma rebias2: "(u::int) = q * 256 + r \<Longrightarrow> (q - 256) * 256 + r = u - 65536"
  by (simp add: algebra_simps)

lemma rebias4:
  "(q::int) * 16777216 + r2 * 65536 + r1 * 256 + r0 = u \<Longrightarrow>
   (((q - 256) * 256 + r2) * 256 + r1) * 256 + r0 = u - 4294967296"
  "(q::int) * 16777216 + r2 * 65536 + r1 * 256 + r0 = u \<Longrightarrow>
   ((q * 256 + r2) * 256 + r1) * 256 + r0 = u"
  by (simp_all add: algebra_simps)

lemma spec_little_endian_2: "spec_little_endian 2 u = [u mod 256, u div 256 mod 256]"
  by (simp add: spec_little_endian_def upt_rec numeral_2_eq_2)

lemma spec_little_endian_4:
  "spec_little_endian 4 u =
     [u mod 256, u div 256 mod 256, u div 65536 mod 256, u div 16777216 mod 256]"
  by (simp add: spec_little_endian_def upt_rec eval_nat_numeral)

lemma spec_bias_2_range:
  "- 32768 \<le> s \<Longrightarrow> s \<le> 32767 \<Longrightarrow> 0 \<le> spec_bias 2 s \<and> spec_bias 2 s < 65536"
  by (simp add: spec_bias_def)

lemma spec_bias_4_range:
  "- (2 ^ 31) \<le> l \<Longrightarrow> l \<le> 2 ^ 31 - 1 \<Longrightarrow> 0 \<le> spec_bias 4 l \<and> spec_bias 4 l < 4294967296"
  by (simp add: spec_bias_def)

section \<open>The fixed-width codecs\<close>

lemma Byte_round_trip:
  assumes "- 128 \<le> b" and "b \<le> 127"
  shows "ByteEncoder_encode b = Inr (spec_little_endian 1 (spec_bias 1 b))"
    and "ByteDecoder_decode (spec_little_endian 1 (spec_bias 1 b)) = Inr b"
  using assms
  by (auto simp: ByteEncoder_encode_def ByteEncoder_encoded_len_def bytearray_set_def
      unsigned_byte_def spec_little_endian_def spec_bias_def ByteDecoder_decode_def
      signed_byte_def)

lemma ShortEncoder_steps:
  assumes "0 \<le> u" and "u < 65536"
  shows "bytearray_set (replicate ShortEncoder_encoded_len 0) 1
           (unsigned_byte (int_truediv u 256)) = Inr [0, u div 256]"
    and "bytearray_set [0, u div 256] 0 (u mod 256) = Inr (spec_little_endian 2 u)"
proof -
  have d: "0 \<le> u div 256" "u div 256 < 256" using assms by auto
  then have m: "u div 256 mod 256 = u div 256" by simp
  show "bytearray_set (replicate ShortEncoder_encoded_len 0) 1
          (unsigned_byte (int_truediv u 256)) = Inr [0, u div 256]"
    using assms d
    by (simp add: ShortEncoder_encoded_len_def bytearray_set_def unsigned_byte_def
        int_truediv_def numeral_2_eq_2)
  show "bytearray_set [0, u div 256] 0 (u mod 256) = Inr (spec_little_endian 2 u)"
    unfolding spec_little_endian_2 m by (simp add: bytearray_set_def)
qed

lemma ShortEncoder_in_range:
  assumes "- 32768 \<le> s" and "s \<le> 32767"
  shows "ShortEncoder_encode s = Inr (spec_little_endian 2 (spec_bias 2 s))"
proof -
  have e: "(if s < 0 then s + 64 * 1024 else s) = spec_bias 2 s" by (simp add: spec_bias_def)
  note r = spec_bias_2_range[OF assms]
  show ?thesis unfolding ShortEncoder_encode_def e Let_def
    using ShortEncoder_steps[OF r[THEN conjunct1] r[THEN conjunct2]] by simp
qed

lemma ShortDecoder_in_range:
  assumes "- 32768 \<le> s" and "s \<le> 32767"
  shows "ShortDecoder_decode (spec_little_endian 2 (spec_bias 2 s)) = Inr s"
proof -
  define u where "u = spec_bias 2 s"
  have u: "0 \<le> u" "u < 65536" using spec_bias_2_range[OF assms] by (simp_all add: u_def)
  have d: "u div 256 mod 256 = u div 256" using u by auto
  have dg: "u = u div 256 * 256 + u mod 256" by simp
  have k: "signed_byte (u div 256) * 256 + u mod 256 = s"
  proof (cases "s < 0")
    case True
    then have us: "u = s + 65536" by (simp add: u_def spec_bias_def)
    with True assms have "\<not> u < 32768" by simp
    then have sb: "signed_byte (u div 256) = u div 256 - 256"
      by (simp add: signed_byte_def high_byte_sign2)
    show ?thesis unfolding sb using rebias2[OF dg] us by simp
  next
    case False
    then have us: "u = s" by (simp add: u_def spec_bias_def)
    with False assms have "u < 32768" by simp
    then have sb: "signed_byte (u div 256) = u div 256"
      by (simp add: signed_byte_def high_byte_sign2)
    show ?thesis unfolding sb using dg us by simp
  qed
  show ?thesis unfolding u_def[symmetric] spec_little_endian_2 d ShortDecoder_decode_def
    using k by simp
qed

lemma LongEncoder_buffer: "replicate LongEncoder_encoded_len (0::int) = [0, 0, 0, 0]"
  by (simp add: LongEncoder_encoded_len_def numeral_eq_Suc)

lemma list_update4:
  "[a, b, c, d][0 := x] = [x, b, c, d]" "[a, b, c, d][1 := x] = [a, x, c, d]"
  "[a, b, c, d][2 := x] = [a, b, x, d]" "[a, b, c, d][3 := x] = [a, b, c, x]"
  by (simp_all add: numeral_eq_Suc)

lemma LongEncoder_loop_nonneg:
  assumes "0 \<le> u"
  shows "LongEncoder_loop [0, 1, 2, 3] u (replicate LongEncoder_encoded_len 0) =
           Inr (spec_little_endian 4 u)"
proof -
  have a: "0 \<le> u div 256" "0 \<le> u div 65536" "0 \<le> u div 16777216" using assms by auto
  have b: "u div 256 div 256 = u div 65536" "u div 65536 div 256 = u div 16777216"
    by (simp_all add: div_mult2_eq[symmetric])
  have t: "int_truediv u 256 = u div 256" "int_truediv (u div 256) 256 = u div 65536"
    "int_truediv (u div 65536) 256 = u div 16777216"
    using assms a by (simp_all add: int_truediv_def b)
  show ?thesis unfolding spec_little_endian_4 LongEncoder_buffer
    by (simp add: bytearray_set_def t list_update4)
qed

lemma LongEncoder_in_range:
  assumes "- (2 ^ 31) \<le> l" and "l \<le> 2 ^ 31 - 1"
  shows "LongEncoder_encode l = Inr (spec_little_endian 4 (spec_bias 4 l))"
proof -
  have e: "(if l < 0 then l + 2 ^ 32 else l) = spec_bias 4 l" by (simp add: spec_bias_def)
  show ?thesis unfolding LongEncoder_encode_def e
    using LongEncoder_loop_nonneg[OF spec_bias_4_range[OF assms, THEN conjunct1]] by simp
qed

lemma LongDecoder_decode_list:
  "LongDecoder_decode [b0, b1, b2, b3] =
     Inr (((signed_byte b3 * 256 + b2) * 256 + b1) * 256 + b0)"
  by (simp add: LongDecoder_decode_def numeral_eq_Suc)

lemma LongDecoder_in_range:
  assumes "- (2 ^ 31) \<le> l" and "l \<le> 2 ^ 31 - 1"
  shows "LongDecoder_decode (spec_little_endian 4 (spec_bias 4 l)) = Inr l"
proof -
  define u where "u = spec_bias 4 l"
  have u: "0 \<le> u" "u < 4294967296"
    using spec_bias_4_range[OF assms] by (simp_all add: u_def)
  note d = top_byte4[OF u]
  note dg = base256_digits4[of u]
  have k: "((signed_byte (u div 16777216) * 256 + u div 65536 mod 256) * 256
              + u div 256 mod 256) * 256 + u mod 256 = l"
  proof (cases "l < 0")
    case True
    then have ul: "u = l + 4294967296" by (simp add: u_def spec_bias_def)
    with True have "\<not> u < 2147483648" using assms(1) by simp
    then have sb: "signed_byte (u div 16777216) = u div 16777216 - 256"
      by (simp add: signed_byte_def high_byte_sign4)
    have "(((u div 16777216 - 256) * 256 + u div 65536 mod 256) * 256
             + u div 256 mod 256) * 256 + u mod 256 = u - 4294967296"
      by (rule rebias4(1)[OF dg])
    also have "\<dots> = l" unfolding ul by simp
    finally show ?thesis unfolding sb .
  next
    case False
    then have ul: "u = l" by (simp add: u_def spec_bias_def)
    with False have "u < 2147483648" using assms(2) by simp
    then have sb: "signed_byte (u div 16777216) = u div 16777216"
      by (simp add: signed_byte_def high_byte_sign4)
    have "((u div 16777216 * 256 + u div 65536 mod 256) * 256
             + u div 256 mod 256) * 256 + u mod 256 = u"
      by (rule rebias4(2)[OF dg])
    also have "\<dots> = l" by (rule ul)
    finally show ?thesis unfolding sb .
  qed
  show ?thesis unfolding u_def[symmetric] spec_little_endian_4 d LongDecoder_decode_list k ..
qed

text \<open>
  C5. For every integer representable in the codec's width (Byte: \<open>-128 \<le> b \<le> 127\<close>;
  Short: \<open>-32768 \<le> s \<le> 32767\<close>; Long: \<open>-2^31 \<le> l \<le> 2^31 - 1\<close>), the encoder succeeds and
  yields exactly \<open>encoded_len()\<close> bytes (1, 2, 4), namely the little-endian base-256 digits
  of the value after a negative value has been biased by \<open>2^8\<close>, \<open>2^16\<close>, \<open>2^32\<close>, and the
  decoder applied to those bytes returns the value.
\<close>

theorem codec_round_trip:
  assumes "- 128 \<le> b" and "b \<le> 127"
    and "- 32768 \<le> s" and "s \<le> 32767"
    and "- (2 ^ 31) \<le> l" and "l \<le> 2 ^ 31 - 1"
  shows "ByteEncoder_encode b = Inr (spec_little_endian 1 (spec_bias 1 b)) \<and>
         length (spec_little_endian 1 (spec_bias 1 b)) = ByteEncoder_encoded_len \<and>
         ByteDecoder_decode (spec_little_endian 1 (spec_bias 1 b)) = Inr b \<and>
         ShortEncoder_encode s = Inr (spec_little_endian 2 (spec_bias 2 s)) \<and>
         length (spec_little_endian 2 (spec_bias 2 s)) = ShortEncoder_encoded_len \<and>
         ShortDecoder_decode (spec_little_endian 2 (spec_bias 2 s)) = Inr s \<and>
         LongEncoder_encode l = Inr (spec_little_endian 4 (spec_bias 4 l)) \<and>
         length (spec_little_endian 4 (spec_bias 4 l)) = LongEncoder_encoded_len \<and>
         LongDecoder_decode (spec_little_endian 4 (spec_bias 4 l)) = Inr l"
proof -
  have len: "\<And>n u. length (spec_little_endian n u) = n"
    by (simp add: spec_little_endian_def)
  show ?thesis
    using Byte_round_trip[OF assms(1,2)]
      ShortEncoder_in_range[OF assms(3,4)] ShortDecoder_in_range[OF assms(3,4)]
      LongEncoder_in_range[OF assms(5,6)] LongDecoder_in_range[OF assms(5,6)]
    by (simp add: len ByteEncoder_encoded_len_def ShortEncoder_encoded_len_def
        LongEncoder_encoded_len_def)
qed

text \<open>The round trip at the minimum Byte, at \<open>-1\<close> as a Short and at the maximum Long.\<close>

theorem codec_round_trip_witness:
  "ByteEncoder_encode (- 128) = Inr [128] \<and> ByteDecoder_decode [128] = Inr (- 128) \<and>
   ShortEncoder_encode (- 1) = Inr [255, 255] \<and> ShortDecoder_decode [255, 255] = Inr (- 1) \<and>
   LongEncoder_encode 2147483647 = Inr [255, 255, 255, 127] \<and>
   LongDecoder_decode [255, 255, 255, 127] = Inr 2147483647"
proof -
  have e1: "spec_little_endian 1 (spec_bias 1 (- 128)) = [128]"
    by (simp add: spec_little_endian_def spec_bias_def)
  have e2: "spec_little_endian 2 (spec_bias 2 (- 1)) = [255, 255]"
    by (simp add: spec_little_endian_2 spec_bias_def)
  have e4: "spec_little_endian 4 (spec_bias 4 2147483647) = [255, 255, 255, 127]"
    by (simp add: spec_little_endian_4 spec_bias_def)
  show ?thesis
    using codec_round_trip[of "- 128" "- 1" 2147483647] unfolding e1 e2 e4 by simp
qed

section \<open>The result funnel\<close>

lemma handle_error_trace: "snd (handle_error p c allow_fail tr) = tr @ [Device c]"
  by (simp add: handle_error_def Let_def split: option.splits pyval.splits)

text \<open>
  C6. For a device operation routed through the funnel: a negative integer result raises
  FailedOperationError unless the caller passes \<open>allow_fail\<close>, in which case the negative
  code is returned; a non-negative code is returned unchanged; an absent or empty payload
  where data was expected raises FailedOperationError; a non-empty payload is returned
  unchanged. In each case exactly the one command has been issued.
\<close>

theorem result_funnel:
  "(result_from (p tr c) = Some (PInt n) \<and> n < 0 \<and> \<not> allow_fail \<longrightarrow>
      handle_error p c allow_fail tr = (Inl FailedOperationError, tr @ [Device c])) \<and>
   (result_from (p tr c) = Some (PInt n) \<and> n < 0 \<and> allow_fail \<longrightarrow>
      handle_error p c allow_fail tr = (Inr n, tr @ [Device c])) \<and>
   (result_from (p tr c) = Some (PInt n) \<and> 0 \<le> n \<longrightarrow>
      handle_error p c allow_fail tr = (Inr n, tr @ [Device c])) \<and>
   (result_from (p tr c) = None \<or> result_from (p tr c) = Some (PBytes []) \<longrightarrow>
      fetch_data_block p c tr = (Inl FailedOperationError, tr @ [Device c])) \<and>
   (result_from (p tr c) = Some d \<and> truthy d \<longrightarrow>
      fetch_data_block p c tr = (Inr d, tr @ [Device c]))"
  by (auto simp: handle_error_def fetch_data_block_def Let_def)

text \<open>
  The five cases on devices that answer \<open>-3\<close>, \<open>4\<close>, nothing, and four bytes.
\<close>

theorem result_funnel_witness:
  "handle_error (\<lambda>tr c. Some (Some (PInt (- 3)))) (DeleteObject [2]) False [] =
     (Inl FailedOperationError, [Device (DeleteObject [2])]) \<and>
   handle_error (\<lambda>tr c. Some (Some (PInt (- 3)))) (DeleteObject [2]) True [] =
     (Inr (- 3), [Device (DeleteObject [2])]) \<and>
   handle_error (\<lambda>tr c. Some (Some (PInt 4))) (NextSlot []) False [] =
     (Inr 4, [Device (NextSlot [])]) \<and>
   fetch_data_block (\<lambda>tr c. None) (ReadValue [2] 4) [] =
     (Inl FailedOperationError, [Device (ReadValue [2] 4)]) \<and>
   fetch_data_block (\<lambda>tr c. Some (Some (PBytes [1, 2, 3, 4]))) (ReadValue [2] 4) [] =
     (Inr (PBytes [1, 2, 3, 4]), [Device (ReadValue [2] 4)])"
  using result_funnel[of "\<lambda>tr c. Some (Some (PInt (- 3)))" "[]" "DeleteObject [2]" "- 3" False]
    result_funnel[of "\<lambda>tr c. Some (Some (PInt (- 3)))" "[]" "DeleteObject [2]" "- 3" True]
    result_funnel[of "\<lambda>tr c. Some (Some (PInt 4))" "[]" "NextSlot []" 4 False]
    result_funnel[of "\<lambda>tr c. None" "[]" "ReadValue [2] 4"]
    result_funnel[of "\<lambda>tr c. Some (Some (PBytes [1, 2, 3, 4]))" "[]" "ReadValue [2] 4" _ _
      "PBytes [1, 2, 3, 4]"]
  by (simp add: result_from_def)

section \<open>Writing values\<close>

lemma ShortEncoder_300: "ShortEncoder_encode 300 = Inr [44, 1]"
  by (simp add: ShortEncoder_encode_def ShortEncoder_encoded_len_def bytearray_set_def
      unsigned_byte_def int_truediv_def numeral_2_eq_2)

text \<open>
  C4. For a proxy \<open>obj\<close> with an id chain and a value \<open>v\<close> that its class encodes,
  \<open>write_value\<close> encodes \<open>v\<close> with the codec of the class (for \<open>PersistChangeValue\<close> and a
  Short \<open>n\<close> the two little-endian bytes of \<open>n\<close>, for \<open>PersistentValue\<close> the buffer itself)
  and sends the encoded value in one write command. Whenever what the device echoes
  differs from what was sent (other bytes, an error code, nothing at all) the call raises
  FailedOperationError; when the echo equals the non-empty encoded value the call
  succeeds. The call returns nothing but the outcome and the extended trace: no proxy and
  no cached value is changed.
\<close>

theorem write_value_echo_mismatch:
  assumes "proxy_id_chain obj = Inr chain"
    and "encode (obj_class obj) v = Inr encoded"
  shows "(obj_class obj = PersistChangeValue \<and> v = PInt n \<and> - 32768 \<le> n \<and> n \<le> 32767 \<longrightarrow>
            encoded = PBytes (spec_little_endian 2 (spec_bias 2 n))) \<and>
         (obj_class obj = PersistentValue \<longrightarrow> encoded = v) \<and>
         (result_from (p tr (WriteValue chain encoded)) \<noteq> Some encoded \<longrightarrow>
            write_value p obj v tr =
              (Inl FailedOperationError, tr @ [Device (WriteValue chain encoded)])) \<and>
         (result_from (p tr (WriteValue chain encoded)) = Some encoded \<and> truthy encoded \<longrightarrow>
            write_value p obj v tr = (Inr (), tr @ [Device (WriteValue chain encoded)]))"
proof -
  have short: "obj_class obj = PersistChangeValue \<and> v = PInt n \<and> - 32768 \<le> n \<and> n \<le> 32767 \<longrightarrow>
                 encoded = PBytes (spec_little_endian 2 (spec_bias 2 n))"
  proof (intro impI, elim conjE)
    assume c: "obj_class obj = PersistChangeValue" and v: "v = PInt n"
      and lo: "- 32768 \<le> n" and hi: "n \<le> 32767"
    from assms(2) c v ShortEncoder_in_range[OF lo hi] show
      "encoded = PBytes (spec_little_endian 2 (spec_bias 2 n))" by simp
  qed
  have buffer: "obj_class obj = PersistentValue \<longrightarrow> encoded = v"
    using assms(2) by auto
  have mismatch: "result_from (p tr (WriteValue chain encoded)) \<noteq> Some encoded \<longrightarrow>
            write_value p obj v tr =
              (Inl FailedOperationError, tr @ [Device (WriteValue chain encoded)])"
    using assms
    by (auto simp: write_value_def write_value_impl_def fetch_data_block_def Let_def
        split: option.splits)
  have match: "result_from (p tr (WriteValue chain encoded)) = Some encoded \<and> truthy encoded \<longrightarrow>
            write_value p obj v tr = (Inr (), tr @ [Device (WriteValue chain encoded)])"
    using assms
    by (simp add: write_value_def write_value_impl_def fetch_data_block_def Let_def)
  show ?thesis by (rule conjI[OF short conjI[OF buffer conjI[OF mismatch match]]])
qed

text \<open>
  A \<open>PersistChangeValue\<close> at slot 2 of the root, written with 300, whose bytes are
  \<open>[44, 1]\<close>: a device that echoes \<open>[44, 2]\<close> is refused at the comparison, a device that
  echoes what it was sent is accepted.
\<close>

theorem write_value_echo_mismatch_witness:
  "proxy_id_chain \<lparr>controller = Some ControllerRef, container = Some RootContainer,
      slot = Some 2, obj_class = PersistChangeValue\<rparr> = Inr [2] \<and>
   encode PersistChangeValue (PInt 300) = Inr (PBytes [44, 1]) \<and>
   PBytes [44, 1] = PBytes (spec_little_endian 2 (spec_bias 2 300)) \<and>
   write_value (\<lambda>tr c. Some (Some (PBytes [44, 2])))
     \<lparr>controller = Some ControllerRef, container = Some RootContainer, slot = Some 2,
      obj_class = PersistChangeValue\<rparr> (PInt 300) [] =
     (Inl FailedOperationError, [Device (WriteValue [2] (PBytes [44, 1]))]) \<and>
   write_value (\<lambda>tr c. case c of WriteValue ch e \<Rightarrow> Some (Some e) | _ \<Rightarrow> None)
     \<lparr>controller = Some ControllerRef, container = Some RootContainer, slot = Some 2,
      obj_class = PersistChangeValue\<rparr> (PInt 300) [] =
     (Inr (), [Device (WriteValue [2] (PBytes [44, 1]))])"
proof -
  let ?obj = "\<lparr>controller = Some ControllerRef, container = Some RootContainer,
      slot = Some 2, obj_class = PersistChangeValue\<rparr>"
  have h1: "proxy_id_chain ?obj = Inr [2]" by (simp add: proxy_id_chain_def)
  have h2: "encode (obj_class ?obj) (PInt 300) = Inr (PBytes [44, 1])"
    by (simp add: ShortEncoder_300)
  have h2': "encode PersistChangeValue (PInt 300) = Inr (PBytes [44, 1])"
    using h2 by simp
  have payload: "PBytes [44, 1] = PBytes (spec_little_endian 2 (spec_bias 2 300))"
    using write_value_echo_mismatch[OF h1 h2, where n = 300, THEN conjunct1] by simp
  have refused:
    "write_value (\<lambda>tr c. Some (Some (PBytes [44, 2]))) ?obj (PInt 300) [] =
       (Inl FailedOperationError, [Device (WriteValue [2] (PBytes [44, 1]))])"
    using write_value_echo_mismatch[OF h1 h2, where p = "\<lambda>tr c. Some (Some (PBytes [44, 2]))"
        and tr = "[]", THEN conjunct2, THEN conjunct2]
    by (simp add: result_from_def)
  have accepted:
    "write_value (\<lambda>tr c. case c of WriteValue ch e \<Rightarrow> Some (Some e) | _ \<Rightarrow> None)
       ?obj (PInt 300) [] = (Inr (), [Device (WriteValue [2] (PBytes [44, 1]))])"
    using write_value_echo_mismatch[OF h1 h2,
        where p = "\<lambda>tr c. case c of WriteValue ch e \<Rightarrow> Some (Some e) | _ \<Rightarrow> None"
        and tr = "[]", THEN conjunct2, THEN conjunct2]
    by (simp add: result_from_def)
  show ?thesis by (intro conjI h1 h2' payload refused accepted)
qed

section \<open>Bring-up\<close>

text \<open>
  C3, as amended. \<open>initialize(fetch_id)\<close> reads the stored system id with one system read
  of length 1 at chain \<open>(0,)\<close>. When the read yields data whose first element is \<open>b\<close>, the
  collaborator is called if and only if \<open>b = 0xFF\<close>; the effective id is the fresh id in
  that case and the stored id otherwise. In either case the effective id is written back
  with one system write, and it is returned when the device echoes it.
\<close>

theorem initialize_writes_effective_id:
  assumes "result_from (p tr (ReadSystemValue [0] 1)) = Some d"
    and "truthy d"
    and "getitem d 0 = Inr b"
  shows "initialize p fetch_id tr =
           (let eff = (if b = 255 then fetch_id else d);
                tr2 = tr @ [Device (ReadSystemValue [0] 1)] @ (if b = 255 then [FetchId] else []);
                echo = result_from (p tr2 (WriteSystemValue [0] eff))
            in (if echo = Some eff \<and> truthy eff then Inr eff else Inl FailedOperationError,
                tr2 @ [Device (WriteSystemValue [0] eff)]))"
  using assms
  by (auto simp: initialize_def read_system_value_def read_value_impl_def system_id_def
      proxy_id_chain_def fetch_data_block_def write_system_value_def write_value_impl_def Let_def
      split: option.splits)

text \<open>An uninitialised device, which stores \<open>0xFF\<close> and echoes every write.\<close>

theorem initialize_writes_effective_id_witness:
  "initialize (\<lambda>tr c. case c of WriteSystemValue ch v \<Rightarrow> Some (Some v)
                        | _ \<Rightarrow> Some (Some (PBytes [255]))) (PBytes [9]) [] =
     (Inr (PBytes [9]),
      [Device (ReadSystemValue [0] 1), FetchId, Device (WriteSystemValue [0] (PBytes [9]))])"
  using initialize_writes_effective_id[
      where p = "\<lambda>tr c. case c of WriteSystemValue ch v \<Rightarrow> Some (Some v)
                        | _ \<Rightarrow> Some (Some (PBytes [255]))"
      and tr = "[]" and d = "PBytes [255]" and b = 255 and fetch_id = "PBytes [9]"]
  by (simp add: result_from_def Let_def)

text \<open>
  C3 as stated fails: a device whose stored id is \<open>7\<close>, not \<open>0xFF\<close>, still receives a
  write of that id.
\<close>

theorem initialize_write_unconditional_counterexample:
  "initialize (\<lambda>tr c. case c of WriteSystemValue ch v \<Rightarrow> Some (Some v)
                        | _ \<Rightarrow> Some (Some (PBytes [7]))) (PBytes [9]) [] =
     (Inr (PBytes [7]),
      [Device (ReadSystemValue [0] 1), Device (WriteSystemValue [0] (PBytes [7]))])"
  by (simp add: initialize_def read_system_value_def read_value_impl_def system_id_def
      proxy_id_chain_def fetch_data_block_def write_system_value_def write_value_impl_def
      result_from_def)

section \<open>Reset\<close>

text \<open>
  C1. The flag that \<open>reset\<close> passes to the device's reset command. The claim asks for
  bit 0 and bit 1 to be set independently, so that \<open>reset(True, True)\<close> sends 3; the
  expression in the source yields 1 whenever \<open>erase_eeprom\<close> is true, and an erasing hard
  reset on a device that stores id \<open>7\<close> sends the command \<open>reset(1)\<close>.
\<close>

theorem reset_erase_and_hard_sends_1:
  "reset_flags True True = 1 \<and> reset_flags True False = 1 \<and>
   reset_flags False True = 2 \<and> reset_flags False False = 0 \<and>
   reset (\<lambda>tr c. case c of ReadSystemValue ch n \<Rightarrow> Some (Some (PBytes [7]))
                  | _ \<Rightarrow> Some (Some (PInt 0))) True True [] =
     (Inr (), [Device (ReadSystemValue [0] 1), ReturnId (PBytes [7]), Device (Reset 1)])"
  by (simp add: reset_flags_def py_or_def reset_def read_system_value_def read_value_impl_def
      proxy_id_chain_def system_id_def fetch_data_block_def result_from_def handle_error_def)

section \<open>Addressing\<close>

lemma id_chain_for_append: "id_chain_for c s = id_chain c @ [s]"
  by (cases c) simp_all

lemma id_chain_container_for_loop: "id_chain (container_for_loop c xs) = id_chain c @ xs"
  by (induction xs arbitrary: c) (simp_all add: id_chain_for_append)

text \<open>
  C7. The root's id chain is empty; the root's chain for a slot is that slot alone; the
  id chain of a container nested in \<open>parent\<close> at \<open>s\<close> is the parent's chain with \<open>s\<close>
  appended; and the container rebuilt by \<open>container_for\<close> from an id chain has that id
  chain. \<open>container_for\<close> is a function of the chain alone: it takes no protocol and
  extends no trace, so it issues no device call.
\<close>

theorem addressing_round_trip:
  "id_chain RootContainer = [] \<and>
   id_chain_for RootContainer s = [s] \<and>
   id_chain (Container parent s) = id_chain parent @ [s] \<and>
   id_chain (container_for chain) = chain"
  by (simp add: id_chain_for_append container_for_def id_chain_container_for_loop)

section \<open>Deleting through a proxy\<close>

text \<open>
  C9, as amended. For a live proxy (controller, container and slot all set): if the
  device answers the delete with a non-negative code, the first \<open>delete()\<close> issues exactly
  one device delete for the proxy's id chain and clears the three references, and every
  later \<open>delete()\<close> on the detached proxy, on any device and after any trace, issues no
  device call and changes nothing. If the device delete fails (a negative code, which
  raises FailedOperationError, or any answer that is not a non-negative integer),
  \<open>delete()\<close> raises after that one device call and the proxy stays attached, unchanged.
\<close>

theorem delete_detaches_only_on_success:
  assumes "controller obj = Some k" and "container obj = Some c" and "slot obj = Some s"
  shows "(result_from (p tr (DeleteObject (id_chain_for c s))) = Some (PInt n) \<and> 0 \<le> n \<longrightarrow>
            delete p obj tr =
              (Inr (), obj\<lparr>container := None, slot := None, controller := None\<rparr>,
               tr @ [Device (DeleteObject (id_chain_for c s))]) \<and>
            delete p' (obj\<lparr>container := None, slot := None, controller := None\<rparr>) tr' =
              (Inr (), obj\<lparr>container := None, slot := None, controller := None\<rparr>, tr')) \<and>
         (result_from (p tr (DeleteObject (id_chain_for c s))) = Some (PInt n) \<and> n < 0 \<longrightarrow>
            delete p obj tr =
              (Inl FailedOperationError, obj,
               tr @ [Device (DeleteObject (id_chain_for c s))])) \<and>
         ((\<forall>m. result_from (p tr (DeleteObject (id_chain_for c s))) = Some (PInt m) \<longrightarrow> m < 0) \<longrightarrow>
            isl (fst (delete p obj tr)) \<and>
            snd (delete p obj tr) = (obj, tr @ [Device (DeleteObject (id_chain_for c s))]))"
proof -
  let ?r = "result_from (p tr (DeleteObject (id_chain_for c s)))"
  have ok: "?r = Some (PInt n) \<and> 0 \<le> n \<longrightarrow>
            delete p obj tr =
              (Inr (), obj\<lparr>container := None, slot := None, controller := None\<rparr>,
               tr @ [Device (DeleteObject (id_chain_for c s))]) \<and>
            delete p' (obj\<lparr>container := None, slot := None, controller := None\<rparr>) tr' =
              (Inr (), obj\<lparr>container := None, slot := None, controller := None\<rparr>, tr')"
    using assms
    by (simp add: delete_def delete_object_def delete_object_at_def proxy_id_chain_def
        handle_error_def)
  have neg: "?r = Some (PInt n) \<and> n < 0 \<longrightarrow>
            delete p obj tr =
              (Inl FailedOperationError, obj,
               tr @ [Device (DeleteObject (id_chain_for c s))])"
    using assms
    by (simp add: delete_def delete_object_def delete_object_at_def proxy_id_chain_def
        handle_error_def)
  have fail: "(\<forall>m. ?r = Some (PInt m) \<longrightarrow> m < 0) \<longrightarrow>
            isl (fst (delete p obj tr)) \<and>
            snd (delete p obj tr) = (obj, tr @ [Device (DeleteObject (id_chain_for c s))])"
    using assms
    by (auto simp: delete_def delete_object_def delete_object_at_def proxy_id_chain_def
        handle_error_def Let_def split: option.splits pyval.splits)
  show ?thesis by (rule conjI[OF ok conjI[OF neg fail]])
qed

text \<open>
  A counter proxy at slot 2 of the root, deleted twice on a device that answers \<open>0\<close>; a
  proxy at slot 3 on a device that answers \<open>-5\<close>; and one on a device that does not answer.
\<close>

theorem delete_detaches_only_on_success_witness:
  "delete (\<lambda>tr c. Some (Some (PInt 0)))
     \<lparr>controller = Some ControllerRef, container = Some RootContainer, slot = Some 2,
      obj_class = CurrentTicks\<rparr> [] =
     (Inr (), \<lparr>controller = None, container = None, slot = None, obj_class = CurrentTicks\<rparr>,
      [Device (DeleteObject [2])]) \<and>
   delete (\<lambda>tr c. Some (Some (PInt 0)))
     \<lparr>controller = None, container = None, slot = None, obj_class = CurrentTicks\<rparr>
     [Device (DeleteObject [2])] =
     (Inr (), \<lparr>controller = None, container = None, slot = None, obj_class = CurrentTicks\<rparr>,
      [Device (DeleteObject [2])]) \<and>
   delete (\<lambda>tr c. Some (Some (PInt (- 5))))
     \<lparr>controller = Some ControllerRef, container = Some RootContainer, slot = Some 3,
      obj_class = PersistentValue\<rparr> [] =
     (Inl FailedOperationError,
      \<lparr>controller = Some ControllerRef, container = Some RootContainer, slot = Some 3,
       obj_class = PersistentValue\<rparr>,
      [Device (DeleteObject [3])]) \<and>
   isl (fst (delete (\<lambda>tr c. Some None)
     \<lparr>controller = Some ControllerRef, container = Some RootContainer, slot = Some 3,
      obj_class = PersistentValue\<rparr> [])) \<and>
   snd (delete (\<lambda>tr c. Some None)
     \<lparr>controller = Some ControllerRef, container = Some RootContainer, slot = Some 3,
      obj_class = PersistentValue\<rparr> []) =
     (\<lparr>controller = Some ControllerRef, container = Some RootContainer, slot = Some 3,
       obj_class = PersistentValue\<rparr>,
      [Device (DeleteObject [3])])"
  using delete_detaches_only_on_success[where p = "\<lambda>tr c. Some (Some (PInt 0))" and tr = "[]"
      and obj = "\<lparr>controller = Some ControllerRef, container = Some RootContainer,
        slot = Some 2, obj_class = CurrentTicks\<rparr>"
      and k = ControllerRef and c = RootContainer and s = 2 and n = 0
      and p' = "\<lambda>tr c. Some (Some (PInt 0))" and tr' = "[Device (DeleteObject [2])]"]
    delete_detaches_only_on_success[where p = "\<lambda>tr c. Some (Some (PInt (- 5)))" and tr = "[]"
      and obj = "\<lparr>controller = Some ControllerRef, container = Some RootContainer,
        slot = Some 3, obj_class = PersistentValue\<rparr>"
      and k = ControllerRef and c = RootContainer and s = 3 and n = "- 5"]
    delete_detaches_only_on_success[where p = "\<lambda>tr c. Some None" and tr = "[]"
      and obj = "\<lparr>controller = Some ControllerRef, container = Some RootContainer,
        slot = Some 3, obj_class = PersistentValue\<rparr>"
      and k = ControllerRef and c = RootContainer and s = 3]
  by (simp add: result_from_def)

text \<open>
  C9 as stated fails when the device refuses the delete: the first \<open>delete()\<close> raises and
  leaves the proxy attached, and the second \<open>delete()\<close> issues a second device call.
\<close>

theorem delete_failure_keeps_proxy_counterexample:
  "delete (\<lambda>tr c. Some (Some (PInt (- 1))))
     \<lparr>controller = Some ControllerRef, container = Some RootContainer, slot = Some 2,
      obj_class = CurrentTicks\<rparr> [] =
     (Inl FailedOperationError,
      \<lparr>controller = Some ControllerRef, container = Some RootContainer, slot = Some 2,
       obj_class = CurrentTicks\<rparr>,
      [Device (DeleteObject [2])]) \<and>
   delete (\<lambda>tr c. Some (Some (PInt (- 1))))
     \<lparr>controller = Some ControllerRef, container = Some RootContainer, slot = Some 2,
      obj_class = CurrentTicks\<rparr> [Device (DeleteObject [2])] =
     (Inl FailedOperationError,
      \<lparr>controller = Some ControllerRef, container = Some RootContainer, slot = Some 2,
       obj_class = CurrentTicks\<rparr>,
      [Device (DeleteObject [2]), Device (DeleteObject [2])])"
  by (simp add: delete_def delete_object_def delete_object_at_def proxy_id_chain_def
      handle_error_def result_from_def)

section \<open>The type registry\<close>

lemma from_id_unknown: "t \<notin> fst ` set from_id_dict \<Longrightarrow> from_id t = None"
  by (simp add: from_id_def map_of_eq_None_iff)

text \<open>
  C10. For a type id that is not a key of the registry, \<open>from_id\<close> returns \<open>None\<close> and
  does not raise; materializing a listed object with such a type id and a non-empty
  definition block then yields no object reference but an error: the attribute error of
  calling \<open>decode_definition\<close> on \<open>None\<close> (or, for an empty id chain, the index error that
  precedes it).
\<close>

theorem unknown_type_id:
  assumes "t \<notin> fst ` set from_id_dict" and "truthy_opt data"
  shows "from_id t = None \<and>
         materialize_object_descriptor chain t data =
           Inl (if chain = [] then IndexError else AttributeError)"
  using assms from_id_unknown[OF assms(1)]
  by (simp add: materialize_object_descriptor_def container_slot_from_id_chain_def
      container_chain_and_id_def)

text \<open>Type id 42 with a two-byte block, listed at chain \<open>(0, 3)\<close>.\<close>

theorem unknown_type_id_witness:
  "(42::int) \<notin> fst ` set from_id_dict \<and> truthy_opt (Some (PBytes [1, 2])) \<and>
   from_id 42 = None \<and>
   materialize_object_descriptor [0, 3] 42 (Some (PBytes [1, 2])) = Inl AttributeError"
proof -
  have h1: "(42::int) \<notin> fst ` set from_id_dict"
    by (simp add: from_id_dict_def all_types_def)
  have h2: "truthy_opt (Some (PBytes [1, 2]))" by simp
  show ?thesis using h1 h2 unknown_type_id[OF h1 h2, of "[0, 3]"] by simp
qed


section \<open>Creating objects\<close>

lemma create_object_check_fails:
  assumes "definition_check cls args = Inl e"
  shows "isl (fst (create_object p cls args cont slt tr)) \<and>
         snd (create_object p cls args cont slt tr) =
           tr @ [Device (case slt of
                           None \<Rightarrow>
                             NextSlot (id_chain (case cont of None \<Rightarrow> RootContainer | Some c \<Rightarrow> c))
                         | Some s \<Rightarrow>
                             DeleteObject
                               (id_chain_for (case cont of None \<Rightarrow> RootContainer | Some c \<Rightarrow> c) s))]"
proof (cases slt)
  case None
  define c where "c = (case cont of None \<Rightarrow> RootContainer | Some c' \<Rightarrow> c')"
  obtain r tr1 where h: "handle_error p (NextSlot (id_chain c)) False tr = (r, tr1)"
    by (cases "handle_error p (NextSlot (id_chain c)) False tr")
  with handle_error_trace[of p "NextSlot (id_chain c)" False tr]
  have t: "tr1 = tr @ [Device (NextSlot (id_chain c))]" by simp
  show ?thesis using None h t assms
    by (cases r) (simp_all add: create_object_def next_slot_def c_def[symmetric])
next
  case (Some s)
  define c where "c = (case cont of None \<Rightarrow> RootContainer | Some c' \<Rightarrow> c')"
  obtain r tr1 where h: "handle_error p (DeleteObject (id_chain_for c s)) True tr = (r, tr1)"
    by (cases "handle_error p (DeleteObject (id_chain_for c s)) True tr")
  with handle_error_trace[of p "DeleteObject (id_chain_for c s)" True tr]
  have t: "tr1 = tr @ [Device (DeleteObject (id_chain_for c s))]" by simp
  show ?thesis using Some h t assms
    by (cases r) (simp_all add: create_object_def delete_object_at_def c_def[symmetric])
qed

lemma ShortEncoder_40000: "ShortEncoder_encode 40000 = Inr [64, 156]"
  by (simp add: ShortEncoder_encode_def ShortEncoder_encoded_len_def bytearray_set_def
      unsigned_byte_def int_truediv_def numeral_2_eq_2)

lemma ShortEncoder_5: "ShortEncoder_encode 5 = Inr [5, 0]"
  by (simp add: ShortEncoder_encode_def ShortEncoder_encoded_len_def bytearray_set_def
      unsigned_byte_def int_truediv_def numeral_2_eq_2)

lemma ShortEncoder_100: "ShortEncoder_encode 100 = Inr [100, 0]"
  by (simp add: ShortEncoder_encode_def ShortEncoder_encoded_len_def bytearray_set_def
      unsigned_byte_def int_truediv_def numeral_2_eq_2)

lemma ShortEncoder_0: "ShortEncoder_encode 0 = Inr [0, 0]"
  by (simp add: ShortEncoder_encode_def ShortEncoder_encoded_len_def bytearray_set_def
      unsigned_byte_def int_truediv_def numeral_2_eq_2)

lemma definition_check_40000:
  "definition_check PersistChangeValue (Some (PPair 40000 5)) = Inl TypeError"
  by (simp add: definition_check_def ShortEncoder_40000 ShortEncoder_5 ShortDecoder_decode_def
      signed_byte_def)

text \<open>
  C2, as amended. For every call \<open>create_object(type, args, container, slot)\<close> with
  non-None \<open>args\<close>, the encoding of the arguments and the round-trip check
  \<open>decode_definition(encode_definition(args)) == args\<close> come after the speculative delete
  at the slot (when a slot is given) or the next-slot query (when none is given) and
  before the create command: if the encoding or the check fails, the call fails, exactly
  that one earlier device call has been issued, and no create command has been sent.
\<close>

theorem create_object_check_precedes_create:
  assumes "definition_check cls (Some a) = Inl e"
  shows "isl (fst (create_object p cls (Some a) cont slt tr)) \<and>
         snd (create_object p cls (Some a) cont slt tr) =
           tr @ [Device (case slt of
                           None \<Rightarrow>
                             NextSlot (id_chain (case cont of None \<Rightarrow> RootContainer | Some c \<Rightarrow> c))
                         | Some s \<Rightarrow>
                             DeleteObject
                               (id_chain_for (case cont of None \<Rightarrow> RootContainer | Some c \<Rightarrow> c) s))]"
  using assms by (rule create_object_check_fails)

text \<open>
  Arguments \<open>(40000, 5)\<close>, whose value does not survive the Short round trip, with no slot
  given, on a device that answers \<open>7\<close>.
\<close>

theorem create_object_check_precedes_create_witness:
  "definition_check PersistChangeValue (Some (PPair 40000 5)) = Inl TypeError \<and>
   isl (fst (create_object (\<lambda>tr c. Some (Some (PInt 7))) PersistChangeValue
          (Some (PPair 40000 5)) None None [])) \<and>
   snd (create_object (\<lambda>tr c. Some (Some (PInt 7))) PersistChangeValue
          (Some (PPair 40000 5)) None None []) = [Device (NextSlot [])]"
  using create_object_check_precedes_create[OF definition_check_40000,
      of "\<lambda>tr c. Some (Some (PInt 7))" None None "[]"]
  by (simp add: definition_check_40000)

text \<open>
  C2 as stated fails: with slot 2 given, the same arguments fail the check only after the
  delete at slot 2 has been sent to the device.
\<close>

theorem create_object_check_after_delete_counterexample:
  "definition_check PersistChangeValue (Some (PPair 40000 5)) = Inl TypeError \<and>
   create_object (\<lambda>tr c. Some (Some (PInt 0))) PersistChangeValue (Some (PPair 40000 5))
     None (Some 2) [] = (Inl TypeError, [Device (DeleteObject [2])])"
  by (simp add: definition_check_40000 create_object_def delete_object_at_def handle_error_def
      result_from_def)

section \<open>The composite validated value\<close>

lemma PersistChangeValue_encode_in_range:
  assumes "- 32768 \<le> v" and "v \<le> 32767" and "0 \<le> t" and "t \<le> 32767"
  shows "encode_definition PersistChangeValue (PPair v t) =
           Inr (PBytes (spec_little_endian 2 (spec_bias 2 v)
                        @ spec_little_endian 2 (spec_bias 2 t)))"
proof -
  have t': "- 32768 \<le> t" using assms(3) by simp
  show ?thesis
    using assms(3) ShortEncoder_in_range[OF assms(1,2)] ShortEncoder_in_range[OF t' assms(4)]
    by simp
qed

lemma PersistChangeValue_decode_in_range:
  assumes "- 32768 \<le> v" and "v \<le> 32767" and "0 \<le> t" and "t \<le> 32767"
  shows "decode_definition PersistChangeValue
           (Some (PBytes (spec_little_endian 2 (spec_bias 2 v)
                          @ spec_little_endian 2 (spec_bias 2 t)))) =
           Inr (PPair v t)"
proof -
  have t': "- 32768 \<le> t" using assms(3) by simp
  have len: "\<And>u. length (spec_little_endian 2 u) = 2" by (simp add: spec_little_endian_def)
  show ?thesis
    using ShortDecoder_in_range[OF assms(1,2)] ShortDecoder_in_range[OF t' assms(4)]
    by (simp add: len)
qed

lemma definition_check_negative_threshold:
  "n < 0 \<Longrightarrow> definition_check PersistChangeValue (Some (PPair w n)) = Inl ValueError"
  by (simp add: definition_check_def)

text \<open>
  C8, as amended. For \<open>PersistChangeValue\<close>, a value \<open>v\<close> that is a Short and a threshold
  \<open>t\<close> with \<open>0 \<le> t \<le> 32767\<close>: \<open>encode_definition((v, t))\<close> is the 4-byte block
  \<open>Short(v) ++ Short(t)\<close>, \<open>(100, 5)\<close> encodes to \<open>[100, 0, 5, 0]\<close>, and \<open>decode_definition\<close>
  of the block gives \<open>(v, t)\<close> back. A negative threshold \<open>n\<close> makes \<open>encode_definition\<close>
  raise ValueError; within \<open>create_object\<close> that failure comes before the create command,
  but after the speculative delete or the next-slot query, which is the only device call
  issued.
\<close>

theorem PersistChangeValue_definition:
  assumes "- 32768 \<le> v" and "v \<le> 32767" and "0 \<le> t" and "t \<le> 32767" and "n < 0"
  shows "encode_definition PersistChangeValue (PPair v t) =
           Inr (PBytes (spec_little_endian 2 (spec_bias 2 v)
                        @ spec_little_endian 2 (spec_bias 2 t))) \<and>
         length (spec_little_endian 2 (spec_bias 2 v) @ spec_little_endian 2 (spec_bias 2 t)) = 4 \<and>
         decode_definition PersistChangeValue
           (Some (PBytes (spec_little_endian 2 (spec_bias 2 v)
                          @ spec_little_endian 2 (spec_bias 2 t)))) = Inr (PPair v t) \<and>
         encode_definition PersistChangeValue (PPair 100 5) = Inr (PBytes [100, 0, 5, 0]) \<and>
         encode_definition PersistChangeValue (PPair w n) = Inl ValueError \<and>
         isl (fst (create_object p PersistChangeValue (Some (PPair w n)) cont slt tr)) \<and>
         snd (create_object p PersistChangeValue (Some (PPair w n)) cont slt tr) =
           tr @ [Device (case slt of
                           None \<Rightarrow>
                             NextSlot (id_chain (case cont of None \<Rightarrow> RootContainer | Some c \<Rightarrow> c))
                         | Some s \<Rightarrow>
                             DeleteObject
                               (id_chain_for (case cont of None \<Rightarrow> RootContainer | Some c \<Rightarrow> c) s))]"
proof -
  have len: "\<And>u. length (spec_little_endian 2 u) = 2" by (simp add: spec_little_endian_def)
  have neg: "encode_definition PersistChangeValue (PPair w n) = Inl ValueError"
    using assms(5) by simp
  have ex: "encode_definition PersistChangeValue (PPair 100 5) = Inr (PBytes [100, 0, 5, 0])"
    by (simp add: ShortEncoder_100 ShortEncoder_5)
  show ?thesis
    using PersistChangeValue_encode_in_range[OF assms(1-4)]
      PersistChangeValue_decode_in_range[OF assms(1-4)]
      create_object_check_fails[OF definition_check_negative_threshold[OF assms(5), of w],
        where p = p and cont = cont and slt = slt and tr = tr]
      neg ex
    by (simp add: len)
qed

text \<open>Arguments \<open>(100, 5)\<close> and \<open>(100, -1)\<close>, the latter with no slot given.\<close>

theorem PersistChangeValue_definition_witness:
  "encode_definition PersistChangeValue (PPair 100 5) = Inr (PBytes [100, 0, 5, 0]) \<and>
   decode_definition PersistChangeValue (Some (PBytes [100, 0, 5, 0])) = Inr (PPair 100 5) \<and>
   encode_definition PersistChangeValue (PPair 100 (- 1)) = Inl ValueError \<and>
   isl (fst (create_object (\<lambda>tr c. Some (Some (PInt 3))) PersistChangeValue
          (Some (PPair 100 (- 1))) None None [])) \<and>
   snd (create_object (\<lambda>tr c. Some (Some (PInt 3))) PersistChangeValue
          (Some (PPair 100 (- 1))) None None []) = [Device (NextSlot [])]"
proof -
  have e: "spec_little_endian 2 (spec_bias 2 100) = [100, 0]"
    "spec_little_endian 2 (spec_bias 2 5) = [5, 0]"
    by (simp_all add: spec_little_endian_2 spec_bias_def)
  show ?thesis
    using PersistChangeValue_definition[where v = 100 and t = 5 and n = "- 1" and w = 100
        and p = "\<lambda>tr c. Some (Some (PInt 3))" and cont = None and slt = None and tr = "[]"]
    unfolding e by simp
qed

text \<open>
  C8 as stated fails twice. A threshold \<open>40000\<close> is not negative, is encoded without
  error, and decodes to \<open>-25536\<close>. And \<open>create_object\<close> with threshold \<open>-1\<close> and no slot
  given raises ValueError only after the next-slot query has been sent to the device.
\<close>

theorem PersistChangeValue_definition_counterexample:
  "encode_definition PersistChangeValue (PPair 0 40000) = Inr (PBytes [0, 0, 64, 156]) \<and>
   decode_definition PersistChangeValue (Some (PBytes [0, 0, 64, 156])) =
     Inr (PPair 0 (- 25536)) \<and>
   create_object (\<lambda>tr c. Some (Some (PInt 3))) PersistChangeValue (Some (PPair 100 (- 1)))
     None None [] = (Inl ValueError, [Device (NextSlot [])])"
  by (simp add: ShortEncoder_0 ShortEncoder_40000 ShortDecoder_decode_def signed_byte_def
      create_object_def next_slot_def handle_error_def result_from_def definition_check_def)


end
